theory Spec2Isabelle
  imports Main
begin

section \<open>JavaScript values and IPLD nodes\<close>

text \<open>
  The loom (\<^verbatim>\<open>src/components/loom.ts\<close>) handles IPLD nodes as plain JavaScript
  objects typed \<^verbatim>\<open>any\<close>. A value is \<^verbatim>\<open>undefined\<close>, a string, an object, an
  array, or a built-in object or function, named (such as the members that every object
  inherits from \<^verbatim>\<open>Object.prototype\<close>). An object is the association list of its own
  properties, in the enumeration order of \<^verbatim>\<open>for (k in obj)\<close>. A link is the object
  \<^verbatim>\<open>{'/': cid}\<close>.
\<close>

datatype jv = JUndef | JStr string | JObj "(string \<times> jv) list" | JArr "jv list" | JNative string

type_synonym obj = "(string \<times> jv) list"

datatype error =
    TypeError
  | BranchNotFound string
  | UnsnapshotModifications "string list"
  | UnstagedModifications "string list"
  | NothingToSnapshot
  | NoCommonAncestor string
  | Conflicting jv
  | InvalidCID
  | MissingObject string
  | IoError

text \<open>The members that a plain object inherits from \<^verbatim>\<open>Object.prototype\<close>; none of
  them is enumerable.\<close>

definition object_prototype :: "string list" where
  "object_prototype =
     [''constructor'', ''__defineGetter__'', ''__defineSetter__'', ''hasOwnProperty'',
      ''__lookupGetter__'', ''__lookupSetter__'', ''isPrototypeOf'', ''propertyIsEnumerable'',
      ''toString'', ''valueOf'', ''__proto__'', ''toLocaleString'']"

text \<open>What an object without own property \<open>k\<close> gives for \<^verbatim>\<open>obj[k]\<close>: the inherited
  member, else \<^verbatim>\<open>undefined\<close>.\<close>

definition inherited :: "string \<Rightarrow> jv" where
  "inherited k = (if k \<in> set object_prototype then JNative k else JUndef)"

text \<open>\<^verbatim>\<open>obj[k]\<close> on an object: the own property if there is one, else what is
  inherited.\<close>

definition objprop :: "obj \<Rightarrow> string \<Rightarrow> jv" where
  "objprop kvs k = (case map_of kvs k of Some v \<Rightarrow> v | None \<Rightarrow> inherited k)"

text \<open>\<^verbatim>\<open>delete obj[k]\<close> on an object: the own property goes.\<close>

definition objdelete :: "obj \<Rightarrow> string \<Rightarrow> obj" where
  "objdelete kvs k = filter (\<lambda>kv. fst kv \<noteq> k) kvs"

text \<open>
  The enumeration order of the own keys: the array indices (canonical decimal strings
  below \<open>2\<^sup>3\<^sup>2 - 1\<close>) come first, in ascending order, then the other keys in the order
  of their creation.
\<close>

definition is_digit :: "char \<Rightarrow> bool" where
  "is_digit c = (48 \<le> (of_char c :: nat) \<and> (of_char c :: nat) \<le> 57)"

text \<open>The order of two canonical decimal strings of the same length.\<close>

fun digits_less :: "string \<Rightarrow> string \<Rightarrow> bool" where
  "digits_less (c # cs) (d # ds) =
     ((of_char c :: nat) < of_char d \<or> (c = d \<and> digits_less cs ds))"
| "digits_less cs ds = False"

definition index_less :: "string \<Rightarrow> string \<Rightarrow> bool" where
  "index_less s t = (length s < length t \<or> (length s = length t \<and> digits_less s t))"

definition is_array_index :: "string \<Rightarrow> bool" where
  "is_array_index s =
     (s \<noteq> [] \<and> list_all is_digit s \<and> (s = ''0'' \<or> hd s \<noteq> CHR ''0'')
      \<and> index_less s ''4294967295'')"

definition enumerated_before :: "string \<Rightarrow> string \<Rightarrow> bool" where
  "enumerated_before k k' =
     (is_array_index k \<and> (\<not> is_array_index k' \<or> index_less k k'))"

text \<open>
  \<^verbatim>\<open>obj[k] = v\<close> on an object: an existing key keeps its place, a new one goes to its
  place in the enumeration order. (An assignment to \<^verbatim>\<open>__proto__\<close> would replace the
  prototype instead; the loom assigns to objects of its own making only, and no run ever
  gets that far.)
\<close>

fun objset :: "obj \<Rightarrow> string \<Rightarrow> jv \<Rightarrow> obj" where
  "objset [] k v = [(k, v)]"
| "objset ((k', v') # kvs) k v =
     (if k' = k then (k, v) # kvs
      else if enumerated_before k k' \<and> map_of kvs k = None then (k, v) # (k', v') # kvs
      else (k', v') # objset kvs k v)"

text \<open>
  \<^verbatim>\<open>x[k]\<close> for the key \<^verbatim>\<open>'/'\<close>, the only one the loom reads from a value of
  unknown kind: reading a property of \<^verbatim>\<open>undefined\<close> throws a TypeError; a string, an
  array or a built-in has no property of that name.
\<close>

fun jsprop :: "jv \<Rightarrow> string \<Rightarrow> error + jv" where
  "jsprop JUndef k = Inl TypeError"
| "jsprop (JObj kvs) k = Inr (objprop kvs k)"
| "jsprop (JStr s) k = Inr JUndef"
| "jsprop (JArr xs) k = Inr JUndef"
| "jsprop (JNative n) k = Inr JUndef"

text \<open>
  A variable of \<^verbatim>\<open>mergeTrees\<close> that is declared without a value (line 345) and to
  which the code only ever assigns properties: it holds \<^verbatim>\<open>undefined\<close> (\<open>None\<close>) or
  an object. \<^verbatim>\<open>x[k] = v\<close> on such a variable: assigning a property of
  \<^verbatim>\<open>undefined\<close> throws a TypeError.
\<close>

fun jsset :: "obj option \<Rightarrow> string \<Rightarrow> jv \<Rightarrow> error + obj option" where
  "jsset None k v = Inl TypeError"
| "jsset (Some kvs) k v = Inr (Some (objset kvs k v))"

text \<open>The value that such a variable holds.\<close>

fun var_value :: "obj option \<Rightarrow> jv" where
  "var_value None = JUndef"
| "var_value (Some kvs) = JObj kvs"

text \<open>
  \<^verbatim>\<open>x[i]\<close> for the one-digit indices the loom uses (\<^verbatim>\<open>parents[0]\<close>, the tuple
  of \<^verbatim>\<open>mergeTrees\<close>): reading an element of \<^verbatim>\<open>undefined\<close> throws a TypeError,
  an index out of range gives \<^verbatim>\<open>undefined\<close>, and on an object the index is the key
  of its decimal digit.
\<close>

definition index_key :: "nat \<Rightarrow> string" where
  "index_key i = [char_of (48 + i)]"

fun jsindex :: "jv \<Rightarrow> nat \<Rightarrow> error + jv" where
  "jsindex JUndef i = Inl TypeError"
| "jsindex (JStr s) i = Inr (if i < length s then JStr [s ! i] else JUndef)"
| "jsindex (JArr xs) i = Inr (if i < length xs then xs ! i else JUndef)"
| "jsindex (JObj kvs) i = Inr (objprop kvs (index_key i))"
| "jsindex (JNative n) i = Inr JUndef"

text \<open>Truthiness, as tested by \<^verbatim>\<open>!x\<close>.\<close>

fun truthy :: "jv \<Rightarrow> bool" where
  "truthy JUndef = False"
| "truthy (JStr s) = (s \<noteq> [])"
| "truthy (JObj kvs) = True"
| "truthy (JArr xs) = True"
| "truthy (JNative n) = True"

text \<open>
  Strict equality \<^verbatim>\<open>===\<close> (also what \<^verbatim>\<open>indexOf\<close> uses). Strings compare by value.
  Objects and arrays compare by reference; the values compared in the loom come out of
  separate \<^verbatim>\<open>node.get\<close> calls, each of which deserialises a fresh object, so two of
  them are never the same reference. A built-in is the same reference wherever it is read.
\<close>

fun strict_eq :: "jv \<Rightarrow> jv \<Rightarrow> bool" where
  "strict_eq JUndef JUndef = True"
| "strict_eq (JStr s) (JStr t) = (s = t)"
| "strict_eq (JNative m) (JNative n) = (m = n)"
| "strict_eq x y = False"

section \<open>The object store\<close>

type_synonym store = "string \<rightharpoonup> obj"

text \<open>The CID a value names: a CID string, or a link \<^verbatim>\<open>{'/': cid}\<close>.\<close>

fun cid_of :: "jv \<Rightarrow> string option" where
  "cid_of (JStr c) = Some c"
| "cid_of (JObj kvs) = (case map_of kvs ''/'' of Some (JStr c) \<Rightarrow> Some c | _ \<Rightarrow> None)"
| "cid_of x = None"

text \<open>
  Modelled from the spec: \<^verbatim>\<open>Node.get(cid)\<close> (class \<^verbatim>\<open>Node\<close>,
  \<^verbatim>\<open>@components/node\<close>, is not among the sources). The store is a content-addressed
  map from CIDs to nodes; \<^verbatim>\<open>get\<close> returns the node or fails.
\<close>

definition node_get :: "store \<Rightarrow> jv \<Rightarrow> error + obj" where
  "node_get S x =
     (case cid_of x of
        None \<Rightarrow> Inl InvalidCID
      | Some c \<Rightarrow> (case S c of None \<Rightarrow> Inl (MissingObject c) | Some n \<Rightarrow> Inr n))"

text \<open>
  Modelled from the spec: \<^verbatim>\<open>Node.get(cid, selector)\<close>, where the selector is a path
  into the node (\<^verbatim>\<open>'tree'\<close>, \<^verbatim>\<open>'@type'\<close>, \<^verbatim>\<open>'path'\<close>). A selected link is
  followed to the node it names; any other selected value is returned as it is.
\<close>

definition node_get_path :: "store \<Rightarrow> jv \<Rightarrow> string \<Rightarrow> error + jv" where
  "node_get_path S x sel =
     (case node_get S x of
        Inl e \<Rightarrow> Inl e
      | Inr n \<Rightarrow>
          (case objprop n sel of
             JObj kvs \<Rightarrow>
               (case map_of kvs ''/'' of
                  Some l \<Rightarrow> (case node_get S l of Inl e \<Rightarrow> Inl e | Inr m \<Rightarrow> Inr (JObj m))
                | None \<Rightarrow> Inr (JObj kvs))
           | v \<Rightarrow> Inr v))"

section \<open>The ancestor walk and the lowest common ancestor\<close>

text \<open>
  \<^verbatim>\<open>buildSnapshotCIDS\<close> (lines 312-325). The \<^verbatim>\<open>while\<close> loop runs as long as the
  \<^verbatim>\<open>parents\<close> field is not the string \<^verbatim>\<open>'undefined'\<close>; the store is arbitrary, so the
  loop is given fuel, and \<open>None\<close> means that the fuel ran out.
\<close>

fun buildSnapshotCIDS_loop :: "nat \<Rightarrow> store \<Rightarrow> obj \<Rightarrow> jv list \<Rightarrow> (error + jv list) option" where
  "buildSnapshotCIDS_loop 0 S snapshot snapshotCIDs = None"
| "buildSnapshotCIDS_loop (Suc n) S snapshot snapshotCIDs =
     (if strict_eq (objprop snapshot ''parents'') (JStr ''undefined'')
      then Some (Inr (snapshotCIDs @ [JStr ''undefined'']))
      else (case jsindex (objprop snapshot ''parents'') 0 of
              Inl e \<Rightarrow> Some (Inl e)
            | Inr p0 \<Rightarrow>
                (case node_get S p0 of
                   Inl e \<Rightarrow> Some (Inl e)
                 | Inr snapshot' \<Rightarrow> buildSnapshotCIDS_loop n S snapshot' (snapshotCIDs @ [p0]))))"

definition buildSnapshotCIDS :: "nat \<Rightarrow> store \<Rightarrow> obj \<Rightarrow> (error + jv list) option" where
  "buildSnapshotCIDS fuel S snapshot = buildSnapshotCIDS_loop fuel S snapshot []"

text \<open>\<^verbatim>\<open>xs.indexOf(x) !== -1\<close>.\<close>

definition js_includes :: "jv list \<Rightarrow> jv \<Rightarrow> bool" where
  "js_includes xs x = list_ex (strict_eq x) xs"

text \<open>The loop of lines 185-191: the first origin entry that the destination list has;
  \<^verbatim>\<open>lcaCID\<close> stays \<^verbatim>\<open>undefined\<close> when there is none.\<close>

fun lcaCID :: "jv list \<Rightarrow> jv list \<Rightarrow> jv" where
  "lcaCID [] destinationSnapshotCIDs = JUndef"
| "lcaCID (entry # originSnapshotCIDs) destinationSnapshotCIDs =
     (if js_includes destinationSnapshotCIDs entry then entry
      else lcaCID originSnapshotCIDs destinationSnapshotCIDs)"

section \<open>The collaborators of the loom\<close>

text \<open>
  The classes \<^verbatim>\<open>Node\<close>, \<^verbatim>\<open>Index\<close>, \<^verbatim>\<open>Snapshot\<close>, \<^verbatim>\<open>Tree\<close> and
  \<^verbatim>\<open>File\<close> and the \<^verbatim>\<open>utils\<close> module are imported by the loom but are not among
  the sources. What the loom calls of them is a parameter of the model: \<open>'i\<close> is the state
  of the index, \<open>'w\<close> the state of the working directory. \<^verbatim>\<open>fromIPLD\<close> (lines
  225-287) is among them: it rebuilds an object from the reflection metadata
  (\<^verbatim>\<open>Reflect.getMetadata('ipld', ...)\<close>) and with the constructors of the classes
  \<^verbatim>\<open>Snapshot\<close>, \<^verbatim>\<open>Tree\<close> and \<^verbatim>\<open>File\<close>, and is called by \<^verbatim>\<open>snapshot\<close>
  only. \<^verbatim>\<open>fs_rm\<close> is \<^verbatim>\<open>utils.fs.rm\<close> of a path under the root of the loom.
\<close>

record ('i, 'w) ext =
  idx_update :: "'w \<Rightarrow> 'i \<Rightarrow> 'i"
  idx_unsnapshot :: "'i \<Rightarrow> string list"
  idx_modified :: "'i \<Rightarrow> string list"
  idx_reinitialize :: "jv \<Rightarrow> 'i \<Rightarrow> 'i"
  node_download :: "store \<Rightarrow> jv \<Rightarrow> 'w \<Rightarrow> error + 'w"
  node_download_cached :: "store \<Rightarrow> jv \<Rightarrow> error + string"
  fs_rm :: "string \<Rightarrow> 'w \<Rightarrow> error + 'w"
  build_tree :: "'i \<Rightarrow> jv \<times> 'i"
  tree_put :: "jv \<Rightarrow> store \<Rightarrow> store"
  fromIPLD :: "store \<Rightarrow> obj \<Rightarrow> error + jv"
  snapshot_toIPLD :: "jv \<Rightarrow> obj"
  node_put :: "obj \<Rightarrow> string"
  author :: jv

section \<open>The three-way tree merge\<close>

text \<open>Lines 336-343 and 408-412: \<^verbatim>\<open>delete t['@type']; delete t['path']\<close>.\<close>

definition delete_meta :: "obj \<Rightarrow> obj" where
  "delete_meta t = objdelete (objdelete t ''@type'') ''path''"

text \<open>
  One round of the \<^verbatim>\<open>for (let entry in _destinationTree)\<close> loop of \<^verbatim>\<open>mergeTrees\<close>
  (lines 348-389). \<open>rec\<close> is the recursive call of line 386, whose result the source
  drops. The state of the loop is \<^verbatim>\<open>_originTree\<close> and \<^verbatim>\<open>mergeTree\<close>; the result is
  the error thrown or the new \<^verbatim>\<open>mergeTree\<close>, with \<^verbatim>\<open>_originTree\<close> as it is left.
  The call of the text merger \<^verbatim>\<open>merge(left, base, right)\<close> (package
  \<^verbatim>\<open>three-way-merge\<close>) only feeds \<^verbatim>\<open>console.log\<close>.
\<close>

definition mergeTrees_entry ::
  "(obj \<Rightarrow> obj \<Rightarrow> obj \<Rightarrow> ((error + jv) \<times> obj \<times> obj \<times> obj) option) \<Rightarrow> ('i, 'w) ext \<Rightarrow> store \<Rightarrow>
   obj \<Rightarrow> obj \<Rightarrow> string \<Rightarrow> obj \<Rightarrow> obj option \<Rightarrow> ((error + obj option) \<times> obj) option" where
  "mergeTrees_entry rec X S destinationTree lcaTree entry originTree mergeTree =
     (if \<not> truthy (objprop originTree entry) then
        (case jsset mergeTree entry (objprop destinationTree entry) of
           Inl e \<Rightarrow> Some (Inl e, originTree)
         | Inr mergeTree' \<Rightarrow> Some (Inr mergeTree', objdelete originTree entry))
      else
        (case jsprop (objprop destinationTree entry) ''/'' of
           Inl e \<Rightarrow> Some (Inl e, originTree)
         | Inr dl \<Rightarrow>
        (case jsprop (objprop originTree entry) ''/'' of
           Inl e \<Rightarrow> Some (Inl e, originTree)
         | Inr ol \<Rightarrow>
        if strict_eq dl ol then Some (Inr mergeTree, originTree)
        else
        (case node_get_path S ol ''@type'' of
           Inl e \<Rightarrow> Some (Inl e, originTree)
         | Inr originEntryType \<Rightarrow>
        (case node_get_path S dl ''@type'' of
           Inl e \<Rightarrow> Some (Inl e, originTree)
         | Inr destinationEntryType \<Rightarrow>
        if \<not> strict_eq originEntryType destinationEntryType then
          (case jsset mergeTree entry (objprop destinationTree entry) of
             Inl e \<Rightarrow> Some (Inl e, originTree)
           | Inr mergeTree' \<Rightarrow> Some (Inr mergeTree', originTree))
        else if strict_eq originEntryType (JStr ''file'') then
          (if \<not> truthy (objprop lcaTree entry) then Some (Inl (NoCommonAncestor entry), originTree)
           else
             (case node_download_cached X S ol of
                Inl e \<Rightarrow> Some (Inl e, originTree)
              | Inr left \<Rightarrow>
             (case jsprop (objprop lcaTree entry) ''/'' of
                Inl e \<Rightarrow> Some (Inl e, originTree)
              | Inr ll \<Rightarrow>
             (case node_download_cached X S ll of
                Inl e \<Rightarrow> Some (Inl e, originTree)
              | Inr base \<Rightarrow>
             (case node_download_cached X S dl of
                Inl e \<Rightarrow> Some (Inl e, originTree)
              | Inr right \<Rightarrow> Some (Inr mergeTree, originTree))))))
        else if strict_eq originEntryType (JStr ''tree'') then
          (case node_get S ol of
             Inl e \<Rightarrow> Some (Inl e, originTree)
           | Inr originEntry \<Rightarrow>
          (case node_get S dl of
             Inl e \<Rightarrow> Some (Inl e, originTree)
           | Inr destinationEntry \<Rightarrow>
          (case jsprop (objprop lcaTree entry) ''/'' of
             Inl e \<Rightarrow> Some (Inl e, originTree)
           | Inr ll \<Rightarrow>
          (case node_get S ll of
             Inl e \<Rightarrow> Some (Inl e, originTree)
           | Inr lcaEntry \<Rightarrow>
          (case rec originEntry destinationEntry lcaEntry of
             None \<Rightarrow> None
           | Some (Inl e, _) \<Rightarrow> Some (Inl e, originTree)
           | Some (Inr _, _) \<Rightarrow> Some (Inr mergeTree, originTree))))))
        else Some (Inr mergeTree, originTree))))))"

fun mergeTrees_loop ::
  "(obj \<Rightarrow> obj \<Rightarrow> obj \<Rightarrow> ((error + jv) \<times> obj \<times> obj \<times> obj) option) \<Rightarrow> ('i, 'w) ext \<Rightarrow> store \<Rightarrow>
   obj \<Rightarrow> obj \<Rightarrow> string list \<Rightarrow> obj \<Rightarrow> obj option \<Rightarrow> ((error + obj option) \<times> obj) option" where
  "mergeTrees_loop rec X S destinationTree lcaTree [] originTree mergeTree =
     Some (Inr mergeTree, originTree)"
| "mergeTrees_loop rec X S destinationTree lcaTree (entry # entries) originTree mergeTree =
     (case mergeTrees_entry rec X S destinationTree lcaTree entry originTree mergeTree of
        None \<Rightarrow> None
      | Some (Inl e, originTree') \<Rightarrow> Some (Inl e, originTree')
      | Some (Inr mergeTree', originTree') \<Rightarrow>
          mergeTrees_loop rec X S destinationTree lcaTree entries originTree' mergeTree')"

text \<open>
  \<^verbatim>\<open>mergeTrees\<close> (lines 334-404). The four variables of line 345 are declared without
  a value, so they hold \<^verbatim>\<open>undefined\<close>; \<^verbatim>\<open>mergeFlag\<close> and \<^verbatim>\<open>mergeReport\<close> are
  never assigned. The fuel bounds the depth of the recursion
  through the store. The result is the error thrown or the tuple returned, and the three
  argument objects as the call leaves them (they are mutated in place).
\<close>

primrec mergeTrees ::
  "nat \<Rightarrow> ('i, 'w) ext \<Rightarrow> store \<Rightarrow> obj \<Rightarrow> obj \<Rightarrow> obj \<Rightarrow> ((error + jv) \<times> obj \<times> obj \<times> obj) option" where
  "mergeTrees 0 X S originTree0 destinationTree0 lcaTree0 = None"
| "mergeTrees (Suc n) X S originTree0 destinationTree0 lcaTree0 =
     (let originTree = delete_meta originTree0;
          destinationTree = delete_meta destinationTree0;
          lcaTree = delete_meta lcaTree0;
          mergeResult = None; mergeTree = None; mergeFlag = JUndef; mergeReport = JUndef
      in case mergeTrees_loop (mergeTrees n X S) X S destinationTree lcaTree
                (map fst destinationTree) originTree mergeTree of
           None \<Rightarrow> None
         | Some (Inl e, originTree') \<Rightarrow> Some (Inl e, originTree', destinationTree, lcaTree)
         | Some (Inr mergeTree', originTree') \<Rightarrow>
             (case jsset mergeResult ''0'' mergeFlag of
                Inl e \<Rightarrow> Some (Inl e, originTree', destinationTree, lcaTree)
              | Inr r0 \<Rightarrow>
             (case jsset r0 ''1'' mergeReport of
                Inl e \<Rightarrow> Some (Inl e, originTree', destinationTree, lcaTree)
              | Inr r1 \<Rightarrow>
             (case jsset r1 ''2'' (var_value mergeTree') of
                Inl e \<Rightarrow> Some (Inl e, originTree', destinationTree, lcaTree)
              | Inr r2 \<Rightarrow> Some (Inr (var_value r2), originTree', destinationTree, lcaTree)))))"

section \<open>Updating the working directory\<close>

text \<open>
  One round of the first loop of \<^verbatim>\<open>updateWorkingDirectory\<close> (lines 415-440). The state
  is the working directory and \<^verbatim>\<open>_baseTree\<close>.
\<close>

definition updateWorkingDirectory_entry ::
  "(obj \<Rightarrow> obj \<Rightarrow> 'w \<Rightarrow> ((error + unit) \<times> 'w \<times> obj \<times> obj) option) \<Rightarrow> ('i, 'w) ext \<Rightarrow> store \<Rightarrow>
   obj \<Rightarrow> string \<Rightarrow> obj \<Rightarrow> 'w \<Rightarrow> ((error + unit) \<times> 'w \<times> obj) option" where
  "updateWorkingDirectory_entry rec X S newTree entry baseTree W =
     (if \<not> truthy (objprop baseTree entry) then
        (case jsprop (objprop newTree entry) ''/'' of
           Inl e \<Rightarrow> Some (Inl e, W, baseTree)
         | Inr nl \<Rightarrow>
        (case node_download X S nl W of
           Inl e \<Rightarrow> Some (Inl e, W, baseTree)
         | Inr W' \<Rightarrow> Some (Inr (), W', objdelete baseTree entry)))
      else
        (case jsprop (objprop baseTree entry) ''/'' of
           Inl e \<Rightarrow> Some (Inl e, W, baseTree)
         | Inr bl \<Rightarrow>
        (case jsprop (objprop newTree entry) ''/'' of
           Inl e \<Rightarrow> Some (Inl e, W, baseTree)
         | Inr nl \<Rightarrow>
        if strict_eq bl nl then Some (Inr (), W, objdelete baseTree entry)
        else
        (case node_get_path S bl ''@type'' of
           Inl e \<Rightarrow> Some (Inl e, W, baseTree)
         | Inr baseEntryType \<Rightarrow>
        (case node_get_path S nl ''@type'' of
           Inl e \<Rightarrow> Some (Inl e, W, baseTree)
         | Inr newEntryType \<Rightarrow>
        if \<not> strict_eq baseEntryType newEntryType then
          (case node_download X S nl W of
             Inl e \<Rightarrow> Some (Inl e, W, baseTree)
           | Inr W' \<Rightarrow> Some (Inr (), W', objdelete baseTree entry))
        else if strict_eq baseEntryType (JStr ''file'') then
          (case node_download X S nl W of
             Inl e \<Rightarrow> Some (Inl e, W, baseTree)
           | Inr W' \<Rightarrow> Some (Inr (), W', objdelete baseTree entry))
        else if strict_eq baseEntryType (JStr ''tree'') then
          (case node_get S bl of
             Inl e \<Rightarrow> Some (Inl e, W, baseTree)
           | Inr baseEntry \<Rightarrow>
          (case node_get S nl of
             Inl e \<Rightarrow> Some (Inl e, W, baseTree)
           | Inr newEntry \<Rightarrow>
          (case rec baseEntry newEntry W of
             None \<Rightarrow> None
           | Some (Inl e, W', _) \<Rightarrow> Some (Inl e, W', baseTree)
           | Some (Inr _, W', _) \<Rightarrow> Some (Inr (), W', objdelete baseTree entry))))
        else Some (Inr (), W, objdelete baseTree entry))))))"

fun updateWorkingDirectory_loop ::
  "(obj \<Rightarrow> obj \<Rightarrow> 'w \<Rightarrow> ((error + unit) \<times> 'w \<times> obj \<times> obj) option) \<Rightarrow> ('i, 'w) ext \<Rightarrow> store \<Rightarrow>
   obj \<Rightarrow> string list \<Rightarrow> obj \<Rightarrow> 'w \<Rightarrow> ((error + unit) \<times> 'w \<times> obj) option" where
  "updateWorkingDirectory_loop rec X S newTree [] baseTree W = Some (Inr (), W, baseTree)"
| "updateWorkingDirectory_loop rec X S newTree (entry # entries) baseTree W =
     (case updateWorkingDirectory_entry rec X S newTree entry baseTree W of
        None \<Rightarrow> None
      | Some (Inl e, W', baseTree') \<Rightarrow> Some (Inl e, W', baseTree')
      | Some (Inr _, W', baseTree') \<Rightarrow>
          updateWorkingDirectory_loop rec X S newTree entries baseTree' W')"

text \<open>The second loop (lines 443-447): what is left of \<^verbatim>\<open>_baseTree\<close> is removed.
  \<^verbatim>\<open>path.join\<close> throws a TypeError when the path read from the node is not a string.\<close>

fun updateWorkingDirectory_rm ::
  "('i, 'w) ext \<Rightarrow> store \<Rightarrow> obj \<Rightarrow> string list \<Rightarrow> 'w \<Rightarrow> (error + unit) \<times> 'w" where
  "updateWorkingDirectory_rm X S baseTree [] W = (Inr (), W)"
| "updateWorkingDirectory_rm X S baseTree (entry # entries) W =
     (case jsprop (objprop baseTree entry) ''/'' of
        Inl e \<Rightarrow> (Inl e, W)
      | Inr bl \<Rightarrow>
     (case node_get_path S bl ''path'' of
        Inl e \<Rightarrow> (Inl e, W)
      | Inr (JStr path) \<Rightarrow>
          (case fs_rm X path W of
             Inl e \<Rightarrow> (Inl e, W)
           | Inr W' \<Rightarrow> updateWorkingDirectory_rm X S baseTree entries W')
      | Inr _ \<Rightarrow> (Inl TypeError, W)))"

text \<open>
  \<^verbatim>\<open>updateWorkingDirectory\<close> (lines 406-448). The result is the error thrown, if any,
  the working directory, and the two argument objects as the call leaves them.
\<close>

primrec updateWorkingDirectory ::
  "nat \<Rightarrow> ('i, 'w) ext \<Rightarrow> store \<Rightarrow> obj \<Rightarrow> obj \<Rightarrow> 'w \<Rightarrow> ((error + unit) \<times> 'w \<times> obj \<times> obj) option" where
  "updateWorkingDirectory 0 X S baseTree0 newTree0 W = None"
| "updateWorkingDirectory (Suc n) X S baseTree0 newTree0 W =
     (let baseTree = delete_meta baseTree0;
          newTree = delete_meta newTree0
      in case updateWorkingDirectory_loop (updateWorkingDirectory n X S) X S newTree
                (map fst newTree) baseTree W of
           None \<Rightarrow> None
         | Some (Inl e, W', baseTree') \<Rightarrow> Some (Inl e, W', baseTree', newTree)
         | Some (Inr _, W', baseTree') \<Rightarrow>
             (case updateWorkingDirectory_rm X S baseTree' (map fst baseTree') W' of
                (r, W'') \<Rightarrow> Some (r, W'', baseTree', newTree)))"

section \<open>The loom\<close>

text \<open>
  The state of a loom: the current branch name (\<^verbatim>\<open>.pando/current\<close>), the head of every
  branch (\<^verbatim>\<open>.pando/branches\<close>; the string \<^verbatim>\<open>'undefined'\<close> is the head of a branch
  without snapshot), the object store, the index and the working directory.
\<close>

record ('i, 'w) loom =
  current :: string
  branches :: "string \<rightharpoonup> string"
  objects :: store
  index :: 'i
  wdir :: 'w

text \<open>
  Modelled from the spec: the branch registry (class \<^verbatim>\<open>Branch\<close> is not among the
  sources). \<^verbatim>\<open>Branch.exists\<close> tells whether the name has a head; \<^verbatim>\<open>this.head\<close>
  loads the current branch and reads its head, and fails when there is no such branch.
\<close>

definition branch_exists :: "('i, 'w) loom \<Rightarrow> string \<Rightarrow> bool" where
  "branch_exists st name = (branches st name \<noteq> None)"

definition head :: "('i, 'w) loom \<Rightarrow> error + string" where
  "head st = (case branches st (current st) of
                None \<Rightarrow> Inl (BranchNotFound (current st))
              | Some h \<Rightarrow> Inr h)"

text \<open>
  A tree handed to \<^verbatim>\<open>mergeTrees\<close> or \<^verbatim>\<open>updateWorkingDirectory\<close> is an object. Their
  first statement is a \<^verbatim>\<open>delete\<close>, which throws a TypeError on \<^verbatim>\<open>undefined\<close>; a
  string, an array or a built-in in the place of a tree is outside the data model and is
  reported as the same error.
\<close>

fun as_tree :: "jv \<Rightarrow> error + obj" where
  "as_tree (JObj kvs) = Inr kvs"
| "as_tree x = Inl TypeError"

text \<open>Modelled from the spec: \<^verbatim>\<open>(new Tree({ path: '.', children: [] })).toIPLD()\<close>,
  the node of the empty root tree (class \<^verbatim>\<open>Tree\<close> is not among the sources).\<close>

definition empty_tree :: obj where
  "empty_tree = [(''@type'', JStr ''tree''), (''path'', JStr ''.'')]"

text \<open>The preflight of \<^verbatim>\<open>checkout\<close> and \<^verbatim>\<open>merge\<close> (lines 114-124 and 151-161):
  the index is updated, then the three checks run in this order.\<close>

definition preflight :: "('i, 'w) ext \<Rightarrow> string \<Rightarrow> ('i, 'w) loom \<Rightarrow> error option \<times> ('i, 'w) loom" where
  "preflight X name st =
     (let st1 = st\<lparr>index := idx_update X (wdir st) (index st)\<rparr>
      in if \<not> branch_exists st1 name then (Some (BranchNotFound name), st1)
         else if idx_unsnapshot X (index st1) \<noteq> []
           then (Some (UnsnapshotModifications (idx_unsnapshot X (index st1))), st1)
         else if idx_modified X (index st1) \<noteq> []
           then (Some (UnstagedModifications (idx_modified X (index st1))), st1)
         else (None, st1))"

text \<open>\<^verbatim>\<open>checkout\<close> (lines 113-147).\<close>

definition checkout ::
  "nat \<Rightarrow> ('i, 'w) ext \<Rightarrow> string \<Rightarrow> ('i, 'w) loom \<Rightarrow> ((error + unit) \<times> ('i, 'w) loom) option" where
  "checkout fuel X branchName st =
     (case preflight X branchName st of
        (Some e, st1) \<Rightarrow> Some (Inl e, st1)
      | (None, st1) \<Rightarrow>
     (case branches st1 branchName of
        None \<Rightarrow> Some (Inl (BranchNotFound branchName), st1)
      | Some newHead \<Rightarrow>
     (case head st1 of
        Inl e \<Rightarrow> Some (Inl e, st1)
      | Inr baseHead \<Rightarrow>
     if newHead \<noteq> ''undefined'' then
       (case node_get_path (objects st1) (JStr newHead) ''tree'' of
          Inl e \<Rightarrow> Some (Inl e, st1)
        | Inr newTreeV \<Rightarrow>
       (case (if baseHead \<noteq> ''undefined''
              then node_get_path (objects st1) (JStr baseHead) ''tree''
              else Inr (JObj empty_tree)) of
          Inl e \<Rightarrow> Some (Inl e, st1)
        | Inr baseTreeV \<Rightarrow>
       (case as_tree baseTreeV of
          Inl e \<Rightarrow> Some (Inl e, st1)
        | Inr baseTree \<Rightarrow>
       (case as_tree newTreeV of
          Inl e \<Rightarrow> Some (Inl e, st1)
        | Inr newTree \<Rightarrow>
       (case updateWorkingDirectory fuel X (objects st1) baseTree newTree (wdir st1) of
          None \<Rightarrow> None
        | Some (Inl e, W', _, _) \<Rightarrow> Some (Inl e, st1\<lparr>wdir := W'\<rparr>)
        | Some (Inr _, W', _, newTree') \<Rightarrow>
            Some (Inr (), st1\<lparr>current := branchName,
                               index := idx_reinitialize X (JObj newTree') (index st1),
                               wdir := W'\<rparr>))))))
     else Some (Inr (), st1\<lparr>current := branchName,
                             index := idx_reinitialize X (JObj empty_tree) (index st1)\<rparr>))))"

text \<open>
  \<^verbatim>\<open>snapshot\<close> (lines 94-111). \<^verbatim>\<open>this.tree()\<close> builds the tree of the staged paths
  from the index and writes the index back; \<^verbatim>\<open>new Snapshot({...})\<close> is the object of
  the four attributes given. The result is the snapshot object returned.
\<close>

definition snapshot ::
  "('i, 'w) ext \<Rightarrow> string \<Rightarrow> ('i, 'w) loom \<Rightarrow> (error + jv) \<times> ('i, 'w) loom" where
  "snapshot X message st =
     (let st1 = st\<lparr>index := idx_update X (wdir st) (index st)\<rparr>
      in if idx_unsnapshot X (index st1) = [] then (Inl NothingToSnapshot, st1)
         else
           (case build_tree X (index st1) of
              (tree, idx') \<Rightarrow>
           (let st2 = st1\<lparr>objects := tree_put X tree (objects st1), index := idx'\<rparr>
            in case head st2 of
                 Inl e \<Rightarrow> (Inl e, st2)
               | Inr h \<Rightarrow>
            (case (if h \<noteq> ''undefined''
                   then (case node_get (objects st2) (JStr h) of
                           Inl e \<Rightarrow> Inl e
                         | Inr n \<Rightarrow>
                             (case fromIPLD X (objects st2) n of
                                Inl e \<Rightarrow> Inl e
                              | Inr p \<Rightarrow> Inr (JArr [p])))
                   else Inr JUndef) of
               Inl e \<Rightarrow> (Inl e, st2)
             | Inr parents \<Rightarrow>
            (let snapshot = JObj [(''author'', author X), (''tree'', tree),
                                  (''parents'', parents), (''message'', JStr message)];
                 ipld = snapshot_toIPLD X snapshot;
                 cid = node_put X ipld;
                 st3 = st2\<lparr>objects := (objects st2)(cid \<mapsto> ipld)\<rparr>
             in case branches st3 (current st3) of
                  None \<Rightarrow> (Inl (BranchNotFound (current st3)), st3)
                | Some _ \<Rightarrow>
                    (Inr snapshot, st3\<lparr>branches := (branches st3)(current st3 \<mapsto> cid)\<rparr>))))))"

text \<open>The message of line 216: \<^verbatim>\<open>'Merged ' + this.currentBranchName + '  into ' + _destinationBranchName\<close>.\<close>

definition merge_message :: "string \<Rightarrow> string \<Rightarrow> string" where
  "merge_message currentBranchName destinationBranchName =
     ''Merged '' @ currentBranchName @ ''  into '' @ destinationBranchName"

text \<open>
  The end of \<^verbatim>\<open>merge\<close> (lines 203-221): the analysis of the tuple that
  \<^verbatim>\<open>mergeTrees\<close> returned. \<open>originTree\<close> is the origin tree as \<^verbatim>\<open>mergeTrees\<close> left it.
\<close>

definition merge_finish ::
  "nat \<Rightarrow> ('i, 'w) ext \<Rightarrow> string \<Rightarrow> obj \<Rightarrow> jv \<Rightarrow> ('i, 'w) loom \<Rightarrow> ((error + unit) \<times> ('i, 'w) loom) option" where
  "merge_finish fuel X destinationBranchName originTree mergeResult st =
     (case jsindex mergeResult 0 of
        Inl e \<Rightarrow> Some (Inl e, st)
      | Inr flag \<Rightarrow>
     if strict_eq flag (JStr ''conflict'') then
       (case jsindex mergeResult 1 of
          Inl e \<Rightarrow> Some (Inl e, st)
        | Inr report \<Rightarrow> Some (Inl (Conflicting report), st))
     else
       (case jsindex mergeResult 2 of
          Inl e \<Rightarrow> Some (Inl e, st)
        | Inr mergedV \<Rightarrow>
       (case as_tree mergedV of
          Inl e \<Rightarrow> Some (Inl e, st)
        | Inr merged \<Rightarrow>
       (case updateWorkingDirectory fuel X (objects st) originTree merged (wdir st) of
          None \<Rightarrow> None
        | Some (Inl e, W', _, _) \<Rightarrow> Some (Inl e, st\<lparr>wdir := W'\<rparr>)
        | Some (Inr _, W', _, merged') \<Rightarrow>
            (let st2 = st\<lparr>index := idx_reinitialize X (JObj merged') (index st), wdir := W'\<rparr>
             in case snapshot X (merge_message (current st2) destinationBranchName) st2 of
                  (Inl e, st3) \<Rightarrow> Some (Inl e, st3)
                | (Inr _, st3) \<Rightarrow> Some (Inr (), st3\<lparr>current := destinationBranchName\<rparr>))))))"

text \<open>\<^verbatim>\<open>merge\<close> (lines 149-223).\<close>

definition merge ::
  "nat \<Rightarrow> ('i, 'w) ext \<Rightarrow> string \<Rightarrow> ('i, 'w) loom \<Rightarrow> ((error + unit) \<times> ('i, 'w) loom) option" where
  "merge fuel X destinationBranchName st =
     (case preflight X destinationBranchName st of
        (Some e, st1) \<Rightarrow> Some (Inl e, st1)
      | (None, st1) \<Rightarrow>
     (case branches st1 destinationBranchName of
        None \<Rightarrow> Some (Inl (BranchNotFound destinationBranchName), st1)
      | Some destinationHead \<Rightarrow>
     (case head st1 of
        Inl e \<Rightarrow> Some (Inl e, st1)
      | Inr originHead \<Rightarrow>
     (case node_get (objects st1) (JStr originHead) of
        Inl e \<Rightarrow> Some (Inl e, st1)
      | Inr originSnapshot \<Rightarrow>
     (case buildSnapshotCIDS fuel (objects st1) originSnapshot of
        None \<Rightarrow> None
      | Some (Inl e) \<Rightarrow> Some (Inl e, st1)
      | Some (Inr originSnapshotCIDs) \<Rightarrow>
     (case node_get (objects st1) (JStr destinationHead) of
        Inl e \<Rightarrow> Some (Inl e, st1)
      | Inr destinationSnapshot \<Rightarrow>
     (case buildSnapshotCIDS fuel (objects st1) destinationSnapshot of
        None \<Rightarrow> None
      | Some (Inl e) \<Rightarrow> Some (Inl e, st1)
      | Some (Inr destinationSnapshotCIDs) \<Rightarrow>
     (case node_get_path (objects st1) (JStr originHead) ''tree'' of
        Inl e \<Rightarrow> Some (Inl e, st1)
      | Inr originTreeV \<Rightarrow>
     (case node_get_path (objects st1) (JStr destinationHead) ''tree'' of
        Inl e \<Rightarrow> Some (Inl e, st1)
      | Inr destinationTreeV \<Rightarrow>
     (case node_get_path (objects st1) (lcaCID originSnapshotCIDs destinationSnapshotCIDs) ''tree'' of
        Inl e \<Rightarrow> Some (Inl e, st1)
      | Inr lcaTreeV \<Rightarrow>
     (case as_tree originTreeV of
        Inl e \<Rightarrow> Some (Inl e, st1)
      | Inr originTree \<Rightarrow>
     (case as_tree destinationTreeV of
        Inl e \<Rightarrow> Some (Inl e, st1)
      | Inr destinationTree \<Rightarrow>
     (case as_tree lcaTreeV of
        Inl e \<Rightarrow> Some (Inl e, st1)
      | Inr lcaTree \<Rightarrow>
     (case mergeTrees fuel X (objects st1) originTree destinationTree lcaTree of
        None \<Rightarrow> None
      | Some (Inl e, _, _, _) \<Rightarrow> Some (Inl e, st1)
      | Some (Inr mergeResult, originTree', _, _) \<Rightarrow>
          merge_finish fuel X destinationBranchName originTree' mergeResult st1))))))))))))))"

section \<open>Concrete repositories\<close>

text \<open>
  The objects of the scenarios the theorems below are evaluated on. A snapshot node
  carries its tree link and its parents; the root snapshot has the string
  \<^verbatim>\<open>'undefined'\<close> for parents, the representation under which the ancestor walk
  stops, and the other snapshots list the CIDs of their parents.
\<close>

definition link :: "string \<Rightarrow> jv" where
  "link c = JObj [(''/'', JStr c)]"

definition snapshot_node :: "string \<Rightarrow> jv \<Rightarrow> obj" where
  "snapshot_node t ps = [(''@type'', JStr ''snapshot''), (''tree'', link t), (''parents'', ps)]"

definition tree_node :: "string \<Rightarrow> obj \<Rightarrow> obj" where
  "tree_node p children = (''@type'', JStr ''tree'') # (''path'', JStr p) # children"

definition file_node :: "string \<Rightarrow> string \<Rightarrow> obj" where
  "file_node p blob = [(''@type'', JStr ''file''), (''path'', JStr p), (''link'', link blob)]"

definition ex_store :: store where
  "ex_store = map_of
     [(''C1'', snapshot_node ''T1'' (JStr ''undefined'')),
      (''C3'', snapshot_node ''T3'' (JArr [JStr ''C1''])),
      (''C4'', snapshot_node ''T4'' (JArr [JStr ''C1''])),
      (''C5'', snapshot_node ''T5'' (JArr [JStr ''C1''])),
      (''C6'', snapshot_node ''T6'' (JArr [JStr ''C3''])),
      (''C7'', snapshot_node ''T7'' (JArr [JStr ''C1''])),
      (''C8'', snapshot_node ''T8'' (JArr [JStr ''C1''])),
      (''C9'', snapshot_node ''T9'' (JArr [JStr ''C1''])),
      (''CA'', snapshot_node ''TA'' (JArr [JStr ''C1''])),
      (''CB'', snapshot_node ''T5'' (JArr [JStr ''C5''])),
      (''CM'', snapshot_node ''T4'' (JArr [JStr ''C4'', JStr ''C5''])),
      (''T1'', tree_node ''.'' [(''a.txt'', link ''Fa'')]),
      (''T3'', tree_node ''.'' [(''a.txt'', link ''Fa''), (''b.txt'', link ''Fb'')]),
      (''T4'', tree_node ''.'' [(''a.txt'', link ''Fa''), (''m.txt'', link ''Fm'')]),
      (''T5'', tree_node ''.'' [(''a.txt'', link ''Fa''), (''o.txt'', link ''Fo'')]),
      (''T6'', tree_node ''.'' [(''a.txt'', link ''Fa''), (''b.txt'', link ''Fb''), (''c.txt'', link ''Fc'')]),
      (''T7'', tree_node ''.'' [(''a.txt'', link ''Fx'')]),
      (''T8'', tree_node ''.'' [(''a.txt'', link ''Fy'')]),
      (''T9'', tree_node ''.'' [(''a.txt'', link ''Fa''), (''p'', link ''Fp'')]),
      (''TA'', tree_node ''.'' [(''a.txt'', link ''Fa''), (''p'', link ''Tp'')]),
      (''Tp'', tree_node ''p'' [(''q'', link ''Fq'')]),
      (''Fa'', file_node ''a.txt'' ''Ba''),
      (''Fb'', file_node ''b.txt'' ''Bb''),
      (''Fc'', file_node ''c.txt'' ''Bc''),
      (''Fm'', file_node ''m.txt'' ''Bm''),
      (''Fo'', file_node ''o.txt'' ''Bo''),
      (''Fx'', file_node ''a.txt'' ''Bx''),
      (''Fy'', file_node ''a.txt'' ''By''),
      (''Fp'', file_node ''p'' ''Bp''),
      (''Fq'', file_node ''p/q'' ''Bq'')]"

text \<open>
  An instance of the collaborators. The index is the pair of its \<^verbatim>\<open>unsnapshot\<close> and
  \<^verbatim>\<open>modified\<close> lists: \<^verbatim>\<open>update\<close> finds the working directory as it was, and
  \<^verbatim>\<open>reinitialize\<close> leaves nothing staged or modified. The working directory is the
  list of the CIDs downloaded and the paths removed. The last six fields are called by
  \<^verbatim>\<open>snapshot\<close> only, which no run evaluated below reaches; they stand for the absent
  classes.
\<close>

definition ex_ext :: "(string list \<times> string list, string list) ext" where
  "ex_ext = \<lparr>
     idx_update = (\<lambda>W i. i),
     idx_unsnapshot = fst,
     idx_modified = snd,
     idx_reinitialize = (\<lambda>t i. ([], [])),
     node_download = (\<lambda>S l W. case cid_of l of None \<Rightarrow> Inl InvalidCID | Some c \<Rightarrow> Inr (W @ [c])),
     node_download_cached = (\<lambda>S l. case cid_of l of None \<Rightarrow> Inl InvalidCID | Some c \<Rightarrow> Inr c),
     fs_rm = (\<lambda>p W. Inr (W @ [p])),
     build_tree = (\<lambda>i. (JObj (tree_node ''.'' []), i)),
     tree_put = (\<lambda>t S. S),
     fromIPLD = (\<lambda>S n. Inr (JObj n)),
     snapshot_toIPLD = (\<lambda>v. case v of JObj kvs \<Rightarrow> kvs | _ \<Rightarrow> []),
     node_put = (\<lambda>n. ''Cn''),
     author = JStr ''me'' \<rparr>"

definition ex_loom ::
  "string \<Rightarrow> (string \<times> string) list \<Rightarrow> string list \<times> string list \<Rightarrow> (string list \<times> string list, string list) loom" where
  "ex_loom cur heads idx =
     \<lparr> current = cur, branches = map_of heads, objects = ex_store, index = idx, wdir = [] \<rparr>"

text \<open>The node stored under a CID, for the evaluation of the trees of the scenarios.\<close>

definition ex_node :: "string \<Rightarrow> obj" where
  "ex_node c = (case ex_store c of None \<Rightarrow> [] | Some n \<Rightarrow> n)"

text \<open>
  The scenario of a clean divergent merge: \<open>master\<close> is at \<open>C4\<close> (it added \<open>m.txt\<close>),
  \<open>b\<close> is at \<open>C5\<close> (it added \<open>o.txt\<close>), both on top of \<open>C1\<close>; the workspace is clean.
\<close>

definition s3_loom :: "(string list \<times> string list, string list) loom" where
  "s3_loom = ex_loom ''master'' [(''master'', ''C4''), (''b'', ''C5'')] ([], [])"




text \<open>A dirty workspace: one path staged and not snapshot, one path modified.\<close>

definition dirty_loom :: "(string list \<times> string list, string list) loom" where
  "dirty_loom = ex_loom ''master'' [(''master'', ''C4''), (''b'', ''C5'')] ([''a.txt''], [''m.txt''])"

text \<open>The scenario of a text conflict: \<open>a.txt\<close> changed on \<open>master\<close> (\<open>C7\<close>) and on
  \<open>b\<close> (\<open>C8\<close>), both on top of \<open>C1\<close>.\<close>

definition s4_loom :: "(string list \<times> string list, string list) loom" where
  "s4_loom = ex_loom ''master'' [(''master'', ''C7''), (''b'', ''C8'')] ([], [])"

text \<open>The scenario of a type conflict: \<open>p\<close> is a file on \<open>master\<close> (\<open>C9\<close>) and a
  directory on \<open>b\<close> (\<open>CA\<close>), both on top of \<open>C1\<close>.\<close>

definition s5_loom :: "(string list \<times> string list, string list) loom" where
  "s5_loom = ex_loom ''master'' [(''master'', ''C9''), (''b'', ''CA'')] ([], [])"

section \<open>Properties of objects\<close>

lemma map_of_objset: "map_of (objset m k v) = (map_of m)(k \<mapsto> v)"
  by (induction m) (auto simp: fun_eq_iff)

lemma objprop_objset: "objprop (objset m k v) k' = (if k' = k then v else objprop m k')"
  by (simp add: objprop_def map_of_objset)

lemma map_of_objdelete: "map_of (objdelete m k) = (map_of m)(k := None)"
  by (induction m) (auto simp: objdelete_def fun_eq_iff)

lemma objprop_objdelete: "objprop (objdelete m k) k' = (if k' = k then inherited k else objprop m k')"
  by (simp add: objprop_def map_of_objdelete)

lemma inherited_meta: "inherited ''@type'' = JUndef" "inherited ''path'' = JUndef"
  by (simp_all add: inherited_def object_prototype_def)

lemma delete_meta_prop:
  "objprop (delete_meta t) k = (if k = ''@type'' \<or> k = ''path'' then JUndef else objprop t k)"
  by (auto simp: delete_meta_def objprop_objdelete inherited_meta)

section \<open>The ancestor walk\<close>

lemma buildSnapshotCIDS_no_parents:
  "map_of snap ''parents'' = None \<Longrightarrow> buildSnapshotCIDS (Suc n) S snap = Some (Inl TypeError)"
  by (simp add: buildSnapshotCIDS_def objprop_def inherited_def object_prototype_def)

text \<open>
  Claim C9. The claim: for a snapshot whose parent chain ends at an initial snapshot
  without \<^verbatim>\<open>parents\<close> field, the ancestor walk ends without error and never reads a
  missing \<^verbatim>\<open>parents\<close> field. The code: on an initial snapshot without the field the
  guard \<^verbatim>\<open>snapshot.parents !== 'undefined'\<close> compares \<^verbatim>\<open>undefined\<close> with a string
  and holds, and \<^verbatim>\<open>snapshot.parents[0]\<close> throws a TypeError, whatever the store and
  for every positive fuel.
\<close>

theorem buildSnapshotCIDS_initial_snapshot_throws:
  "buildSnapshotCIDS (Suc n) S [(''@type'', JStr ''snapshot''), (''tree'', t)] = Some (Inl TypeError)"
  by (simp add: buildSnapshotCIDS_def objprop_def inherited_def object_prototype_def)

text \<open>
  Claim C8. The claim: the LCA that \<^verbatim>\<open>merge\<close> computes is a common ancestor of the two
  heads and no common ancestor is a strict descendant of it. The code on the chain
  \<open>C1 \<leftarrow> C3 \<leftarrow> C6\<close> with origin head \<open>C3\<close> and destination head \<open>C6\<close>: the walk
  starts at the parent of each head, so the lists are \<open>[C1, undefined]\<close> and
  \<open>[C3, C1, undefined]\<close> and the result is \<open>C1\<close>, although \<open>C3\<close>, the origin head
  and the parent of \<open>C6\<close>, is a common ancestor below \<open>C1\<close>. The walk also follows
  first parents only: for \<open>CM\<close> with parents \<open>[C4, C5]\<close> and \<open>CB\<close> with parent \<open>C5\<close>
  the result is \<open>C1\<close> again, although \<open>C5\<close> is a parent of both and a child of \<open>C1\<close>.
\<close>

theorem lcaCID_chain_not_lowest:
  "buildSnapshotCIDS 3 ex_store (ex_node ''C3'') = Some (Inr [JStr ''C1'', JStr ''undefined''])
   \<and> buildSnapshotCIDS 3 ex_store (ex_node ''C6'') = Some (Inr [JStr ''C3'', JStr ''C1'', JStr ''undefined''])
   \<and> lcaCID [JStr ''C1'', JStr ''undefined''] [JStr ''C3'', JStr ''C1'', JStr ''undefined''] = JStr ''C1''
   \<and> objprop (ex_node ''C6'') ''parents'' = JArr [JStr ''C3'']
   \<and> objprop (ex_node ''C3'') ''parents'' = JArr [JStr ''C1'']
   \<and> buildSnapshotCIDS 3 ex_store (ex_node ''CM'') = Some (Inr [JStr ''C4'', JStr ''C1'', JStr ''undefined''])
   \<and> buildSnapshotCIDS 3 ex_store (ex_node ''CB'') = Some (Inr [JStr ''C5'', JStr ''C1'', JStr ''undefined''])
   \<and> lcaCID [JStr ''C4'', JStr ''C1'', JStr ''undefined''] [JStr ''C5'', JStr ''C1'', JStr ''undefined''] = JStr ''C1''
   \<and> objprop (ex_node ''CM'') ''parents'' = JArr [JStr ''C4'', JStr ''C5'']
   \<and> objprop (ex_node ''CB'') ''parents'' = JArr [JStr ''C5'']
   \<and> objprop (ex_node ''C5'') ''parents'' = JArr [JStr ''C1'']"
  by code_simp

section \<open>The tree merge\<close>

text \<open>\<^verbatim>\<open>mergeTrees\<close> never returns: \<^verbatim>\<open>mergeResult\<close> is still \<^verbatim>\<open>undefined\<close> when
  line 398 assigns to its element.\<close>

lemma mergeTrees_throws:
  assumes "mergeTrees n X S originTree destinationTree lcaTree = Some (r, t)"
  shows "\<exists>e. r = Inl e"
proof (cases n)
  case 0
  with assms show ?thesis by simp
next
  case (Suc m)
  with assms show ?thesis
    by (auto simp: Let_def split: option.splits sum.splits prod.splits)
qed

text \<open>\<^verbatim>\<open>mergeTree\<close> is \<^verbatim>\<open>undefined\<close> all along the loop: a round that assigns to it
  throws.\<close>

lemma mergeTrees_entry_undefined:
  assumes "mergeTrees_entry rec X S d l entry originTree None = Some (Inr mt', originTree')"
  shows "mt' = None"
  using assms unfolding mergeTrees_entry_def
  by (auto split: if_splits sum.splits option.splits prod.splits)

lemma mergeTrees_loop_undefined:
  "mergeTrees_loop rec X S d l entries originTree None = Some (Inr mt', originTree') \<Longrightarrow> mt' = None"
proof (induction entries arbitrary: originTree)
  case Nil
  then show ?case by simp
next
  case (Cons entry entries)
  from Cons.prems obtain mt1 o1 where
    step: "mergeTrees_entry rec X S d l entry originTree None = Some (Inr mt1, o1)"
    and rest: "mergeTrees_loop rec X S d l entries o1 mt1 = Some (Inr mt', originTree')"
    by (auto split: option.splits sum.splits prod.splits)
  from mergeTrees_entry_undefined[OF step] have "mt1 = None" .
  with rest Cons.IH show ?case by simp
qed

text \<open>The loop touches \<^verbatim>\<open>_originTree\<close> only where it has no (truthy) entry.\<close>

lemma mergeTrees_entry_origin:
  assumes "mergeTrees_entry rec X S d l entry originTree mt = Some (r, originTree')"
  shows "originTree' = originTree
     \<or> (\<not> truthy (objprop originTree entry) \<and> originTree' = objdelete originTree entry)"
  using assms unfolding mergeTrees_entry_def
  by (auto split: if_splits sum.splits option.splits prod.splits)

lemma mergeTrees_loop_origin:
  "mergeTrees_loop rec X S d l entries originTree mt = Some (r, originTree') \<Longrightarrow>
   truthy (objprop originTree k) \<Longrightarrow> objprop originTree' k = objprop originTree k"
proof (induction entries arbitrary: originTree mt)
  case Nil
  then show ?case by simp
next
  case (Cons entry entries)
  from Cons.prems(1) obtain r1 o1 where
    step: "mergeTrees_entry rec X S d l entry originTree mt = Some (r1, o1)"
    by (auto split: option.splits)
  from mergeTrees_entry_origin[OF step] Cons.prems(2)
  have keep: "objprop o1 k = objprop originTree k"
    by (auto simp: objprop_objdelete)
  show ?case
  proof (cases r1)
    case (Inl e)
    with step Cons.prems(1) have "originTree' = o1" by simp
    with keep show ?thesis by simp
  next
    case (Inr mt')
    with step Cons.prems(1) have "mergeTrees_loop rec X S d l entries o1 mt' = Some (r, originTree')"
      by simp
    from Cons.IH[OF this] keep Cons.prems(2) show ?thesis by simp
  qed
qed

lemma mergeTrees_keeps_origin_entries:
  assumes "mergeTrees n X S originTree destinationTree lcaTree = Some (r, originTree', t)"
    and "truthy (objprop (delete_meta originTree) k)"
  shows "objprop originTree' k = objprop (delete_meta originTree) k"
proof (cases n)
  case 0
  with assms show ?thesis by simp
next
  case (Suc m)
  with assms(1) obtain r1 where
    "mergeTrees_loop (mergeTrees m X S) X S (delete_meta destinationTree) (delete_meta lcaTree)
       (map fst (delete_meta destinationTree)) (delete_meta originTree) None = Some (r1, originTree')"
    by (auto simp: Let_def split: option.splits sum.splits prod.splits)
  from mergeTrees_loop_origin[OF this assms(2)] show ?thesis .
qed

text \<open>The round of the loop on an entry that both trees have, with different CIDs and
  different kinds: the assignment of line 360 throws.\<close>

lemma mergeTrees_entry_kind_mismatch_throws:
  assumes "truthy (objprop originTree entry)"
    and "jsprop (objprop destinationTree entry) ''/'' = Inr dl"
    and "jsprop (objprop originTree entry) ''/'' = Inr ol"
    and "\<not> strict_eq dl ol"
    and "node_get_path S ol ''@type'' = Inr originEntryType"
    and "node_get_path S dl ''@type'' = Inr destinationEntryType"
    and "\<not> strict_eq originEntryType destinationEntryType"
  shows "mergeTrees_entry rec X S destinationTree lcaTree entry originTree None
         = Some (Inl TypeError, originTree)"
  using assms by (simp add: mergeTrees_entry_def)

text \<open>
  Claim C1. The claim: an entry that only the origin tree has is in the merged tree. The
  code on the trees of the scenario of a clean divergent merge (origin \<open>{a.txt, m.txt}\<close>,
  destination \<open>{a.txt, o.txt}\<close>, base \<open>{a.txt}\<close>): the loop runs over the destination
  entries only, \<^verbatim>\<open>mergeTree\<close> is never given a value, and the call throws a TypeError;
  no merged tree holds \<open>m.txt\<close>.
\<close>

theorem mergeTrees_origin_only_entry_lost:
  "mergeTrees 1 X ex_store (ex_node ''T4'') (ex_node ''T5'') (ex_node ''T1'')
   = Some (Inl TypeError,
       [(''a.txt'', link ''Fa''), (''m.txt'', link ''Fm'')],
       [(''a.txt'', link ''Fa''), (''o.txt'', link ''Fo'')],
       [(''a.txt'', link ''Fa'')])"
  by (simp add: ex_node_def ex_store_def tree_node_def delete_meta_def objdelete_def
      mergeTrees_entry_def objprop_def inherited_def object_prototype_def link_def)

text \<open>
  Claim C5. The claim: where the origin and the destination both have the entry, with
  different CIDs and different kinds, the merge reports a conflict of kind TypeConflict
  for that path. The code on the type-conflict scenario (\<open>p\<close> is the file \<open>Fp\<close> on
  \<open>master\<close> and the tree \<open>Tp\<close> on \<open>b\<close>): the round for \<open>p\<close> reaches the assignment
  of line 360 with \<^verbatim>\<open>mergeTree\<close> still \<^verbatim>\<open>undefined\<close>, so \<^verbatim>\<open>mergeTrees\<close> and with
  it \<^verbatim>\<open>merge\<close> end with the TypeError of that assignment: no conflict is reported, and
  no merged entry is produced.
\<close>

theorem merge_type_conflict_throws_TypeError:
  "objprop (ex_node ''T9'') ''p'' = link ''Fp'' \<and> objprop (ex_node ''TA'') ''p'' = link ''Tp''
   \<and> node_get_path ex_store (JStr ''Fp'') ''@type'' = Inr (JStr ''file'')
   \<and> node_get_path ex_store (JStr ''Tp'') ''@type'' = Inr (JStr ''tree'')
   \<and> fst (the (mergeTrees 1 ex_ext ex_store (ex_node ''T9'') (ex_node ''TA'') (ex_node ''T1''))) = Inl TypeError
   \<and> fst (the (merge 2 ex_ext ''b'' s5_loom)) = Inl TypeError"
  by code_simp

text \<open>
  Claim C10. The claim: \<^verbatim>\<open>mergeTrees\<close> deletes the meta keys and removes the processed
  entries from the trees it is given, so that the origin tree no longer has the entries
  it shared with the destination tree. The code on three trees that all hold
  \<open>a.txt \<mapsto> Fa\<close>: the meta keys are deleted, and the shared entry is still in the origin
  tree when the call ends (with a TypeError), for every store and collaborator.
\<close>

theorem mergeTrees_keeps_shared_origin_entry:
  "mergeTrees 1 X S (tree_node ''.'' [(''a.txt'', link ''Fa'')]) (tree_node ''.'' [(''a.txt'', link ''Fa'')])
      (tree_node ''.'' [(''a.txt'', link ''Fa'')])
   = Some (Inl TypeError, [(''a.txt'', link ''Fa'')], [(''a.txt'', link ''Fa'')], [(''a.txt'', link ''Fa'')])"
  by (simp add: tree_node_def delete_meta_def objdelete_def mergeTrees_entry_def objprop_def
      link_def Let_def)

section \<open>The working directory update\<close>

text \<open>\<^verbatim>\<open>updateWorkingDirectory\<close> does remove from \<^verbatim>\<open>_baseTree\<close> every entry of
  \<^verbatim>\<open>_newTree\<close> that it has processed.\<close>

lemma updateWorkingDirectory_entry_base:
  assumes "updateWorkingDirectory_entry rec X S newTree entry baseTree W = Some (Inr u, W', baseTree')"
  shows "baseTree' = objdelete baseTree entry"
  using assms unfolding updateWorkingDirectory_entry_def
  by (auto split: if_splits sum.splits option.splits prod.splits)

lemma updateWorkingDirectory_loop_base:
  "updateWorkingDirectory_loop rec X S newTree entries baseTree W = Some (Inr u, W', baseTree') \<Longrightarrow>
   objprop baseTree' k = (if k \<in> set entries then inherited k else objprop baseTree k)"
proof (induction entries arbitrary: baseTree W)
  case Nil
  then show ?case by simp
next
  case (Cons entry entries)
  from Cons.prems obtain W1 b1 u1 where
    step: "updateWorkingDirectory_entry rec X S newTree entry baseTree W = Some (Inr u1, W1, b1)"
    and rest: "updateWorkingDirectory_loop rec X S newTree entries b1 W1 = Some (Inr u, W', baseTree')"
    by (auto split: option.splits sum.splits prod.splits)
  from updateWorkingDirectory_entry_base[OF step] have "b1 = objdelete baseTree entry" .
  with Cons.IH[OF rest] show ?case by (auto simp: objprop_objdelete)
qed

lemma updateWorkingDirectory_removes_entries:
  assumes "updateWorkingDirectory n X S baseTree newTree W = Some (Inr u, W', baseTree', newTree')"
  shows "newTree' = delete_meta newTree \<and> (\<forall>k \<in> fst ` set newTree'. objprop baseTree' k = inherited k)"
proof (cases n)
  case 0
  with assms show ?thesis by simp
next
  case (Suc m)
  with assms obtain u1 W1 where
    "updateWorkingDirectory_loop (updateWorkingDirectory m X S) X S (delete_meta newTree)
       (map fst (delete_meta newTree)) (delete_meta baseTree) W = Some (Inr u1, W1, baseTree')"
    and "newTree' = delete_meta newTree"
    by (auto simp: Let_def split: option.splits sum.splits prod.splits)
  with updateWorkingDirectory_loop_base[OF this(1)] show ?thesis by auto
qed

section \<open>Snapshot, checkout and merge\<close>

lemma preflight_state:
  "preflight X name st = (r, st1) \<Longrightarrow> st1 = st\<lparr>index := idx_update X (wdir st) (index st)\<rparr>"
  by (auto simp: preflight_def Let_def split: if_splits)

text \<open>Since \<^verbatim>\<open>mergeTrees\<close> never returns, \<^verbatim>\<open>merge\<close> always ends with an error, and
  with the state that the update of the index left.\<close>

lemma merge_frame:
  assumes "merge fuel X name st = Some (r, st')"
  shows "(\<exists>e. r = Inl e) \<and> st' = st\<lparr>index := idx_update X (wdir st) (index st)\<rparr>"
proof -
  obtain pr st1 where pf: "preflight X name st = (pr, st1)" by (cases "preflight X name st")
  have st1: "st1 = st\<lparr>index := idx_update X (wdir st) (index st)\<rparr>"
    using preflight_state[OF pf] .
  have nosucc: "\<And>fuel' o' d' l' res t.
      mergeTrees fuel' X (objects st1) o' d' l' = Some (Inr res, t) \<Longrightarrow> False"
    using mergeTrees_throws by fastforce
  from assms pf have "(\<exists>e. r = Inl e) \<and> st' = st1"
    unfolding merge_def
    by (auto split: option.splits sum.splits prod.splits dest: nosucc)
  with st1 show ?thesis by simp
qed

text \<open>A snapshot made by \<^verbatim>\<open>snapshot\<close> has no parent or one: \<^verbatim>\<open>parents\<close> is built
  from \<^verbatim>\<open>this.head\<close> alone (line 103).\<close>

lemma snapshot_parents:
  assumes "snapshot X m st = (Inr s, st')"
  shows "\<exists>tree parents.
      s = JObj [(''author'', author X), (''tree'', tree), (''parents'', parents), (''message'', JStr m)]
      \<and> (parents = JUndef \<or> (\<exists>p. parents = JArr [p]))"
  using assms unfolding snapshot_def head_def Let_def
  by (fastforce split: if_splits option.splits sum.splits prod.splits)

text \<open>The branch of line 204: a tuple whose flag is \<^verbatim>\<open>'conflict'\<close> makes \<^verbatim>\<open>merge\<close>
  throw the report and change nothing.\<close>

lemma merge_finish_conflict:
  assumes "jsindex mergeResult 0 = Inr (JStr ''conflict'')" and "jsindex mergeResult 1 = Inr report"
  shows "merge_finish fuel X name originTree mergeResult st = Some (Inl (Conflicting report), st)"
  using assms by (simp add: merge_finish_def)

text \<open>The runs of \<^verbatim>\<open>merge\<close> evaluated below end.\<close>

lemma s3_merge_ends: "\<exists>r st'. merge 2 ex_ext ''b'' s3_loom = Some (r, st')"
proof -
  have "case merge 2 ex_ext ''b'' s3_loom of None \<Rightarrow> False | Some _ \<Rightarrow> True" by code_simp
  then show ?thesis by (auto split: option.splits)
qed




text \<open>
  Claim C2. The claim: a clean, non-fast-forward merge creates a snapshot with the two
  parents \<open>[o, d]\<close>. The code on the divergent-merge scenario (\<open>master\<close> at \<open>C4\<close>,
  \<open>b\<close> at \<open>C5\<close>, clean workspace): \<^verbatim>\<open>merge\<close> ends with the TypeError of
  \<^verbatim>\<open>mergeTrees\<close> before line 216, nothing is added to the object store and \<open>master\<close>
  is still at \<open>C4\<close>: no merge snapshot is created.
\<close>

theorem merge_divergent_creates_no_snapshot:
  "branches s3_loom ''master'' = Some ''C4'' \<and> branches s3_loom ''b'' = Some ''C5''
   \<and> fst (the (merge 2 ex_ext ''b'' s3_loom)) = Inl TypeError
   \<and> objects (snd (the (merge 2 ex_ext ''b'' s3_loom))) = objects s3_loom
   \<and> branches (snd (the (merge 2 ex_ext ''b'' s3_loom))) ''master'' = Some ''C4''"
proof -
  from s3_merge_ends obtain r st' where run: "merge 2 ex_ext ''b'' s3_loom = Some (r, st')"
    by blast
  from merge_frame[OF run] have "objects st' = objects s3_loom" by simp
  with run have o: "objects (snd (the (merge 2 ex_ext ''b'' s3_loom))) = objects s3_loom" by simp
  have e: "branches s3_loom ''master'' = Some ''C4'' \<and> branches s3_loom ''b'' = Some ''C5''
   \<and> fst (the (merge 2 ex_ext ''b'' s3_loom)) = Inl TypeError
   \<and> branches (snd (the (merge 2 ex_ext ''b'' s3_loom))) ''master'' = Some ''C4''"
    by code_simp
  from o e show ?thesis by blast
qed

text \<open>
  Claim C3. The claim: after a merge the current branch has the name it had and its head
  has moved to the new merge snapshot. The code on the divergent-merge scenario:
  \<^verbatim>\<open>merge\<close> ends with a TypeError; the current branch is still \<open>master\<close>, but no head
  has moved: the heads are those of before the call.
\<close>

theorem merge_divergent_head_not_moved:
  "current s3_loom = ''master''
   \<and> fst (the (merge 2 ex_ext ''b'' s3_loom)) = Inl TypeError
   \<and> current (snd (the (merge 2 ex_ext ''b'' s3_loom))) = ''master''
   \<and> branches (snd (the (merge 2 ex_ext ''b'' s3_loom))) = branches s3_loom"
proof -
  from s3_merge_ends obtain r st' where run: "merge 2 ex_ext ''b'' s3_loom = Some (r, st')"
    by blast
  from merge_frame[OF run] have "branches st' = branches s3_loom" by simp
  with run have b: "branches (snd (the (merge 2 ex_ext ''b'' s3_loom))) = branches s3_loom" by simp
  have e: "current s3_loom = ''master''
   \<and> fst (the (merge 2 ex_ext ''b'' s3_loom)) = Inl TypeError
   \<and> current (snd (the (merge 2 ex_ext ''b'' s3_loom))) = ''master''"
    by code_simp
  from b e show ?thesis by blast
qed

text \<open>
  Claim C4. The claim: a merge whose tree merge finds a conflict aborts with the conflict
  report. The code on the text-conflict scenario (\<open>a.txt\<close> is \<open>Fx\<close> on \<open>master\<close>, \<open>Fy\<close>
  on \<open>b\<close> and \<open>Fa\<close> in the base): the result of the text merger is only logged, no
  flag and no report are set, and \<^verbatim>\<open>mergeTrees\<close> and with it \<^verbatim>\<open>merge\<close> end with a
  TypeError instead of the conflict report.
\<close>

theorem merge_text_conflict_throws_TypeError:
  "objprop (ex_node ''T7'') ''a.txt'' = link ''Fx'' \<and> objprop (ex_node ''T8'') ''a.txt'' = link ''Fy''
   \<and> objprop (ex_node ''T1'') ''a.txt'' = link ''Fa''
   \<and> fst (the (mergeTrees 1 ex_ext ex_store (ex_node ''T7'') (ex_node ''T8'') (ex_node ''T1''))) = Inl TypeError
   \<and> fst (the (merge 2 ex_ext ''b'' s4_loom)) = Inl TypeError"
  by code_simp




text \<open>
  Claim C7, as amended. When the named branch exists and, after the update of the index,
  the \<^verbatim>\<open>unsnapshot\<close> or the \<^verbatim>\<open>modified\<close> list is not empty, \<^verbatim>\<open>merge\<close> and
  \<^verbatim>\<open>checkout\<close> fail with an error that lists the \<^verbatim>\<open>unsnapshot\<close> paths if there are
  any and the \<^verbatim>\<open>modified\<close> paths otherwise, and the state is the one that the update
  of the index left: working directory, branch heads, current branch and store are
  untouched.
\<close>

theorem dirty_workspace_guard:
  assumes "branch_exists st name"
    and "idx_unsnapshot X (idx_update X (wdir st) (index st)) \<noteq> []
         \<or> idx_modified X (idx_update X (wdir st) (index st)) \<noteq> []"
  shows "(let i = idx_update X (wdir st) (index st);
              e = (if idx_unsnapshot X i \<noteq> [] then UnsnapshotModifications (idx_unsnapshot X i)
                   else UnstagedModifications (idx_modified X i))
          in merge fuel X name st = Some (Inl e, st\<lparr>index := i\<rparr>)
           \<and> checkout fuel X name st = Some (Inl e, st\<lparr>index := i\<rparr>))"
  using assms
  by (auto simp: merge_def checkout_def preflight_def branch_exists_def Let_def)

text \<open>The amended claim C7 on a dirty workspace and the existing branch \<open>b\<close>.\<close>

theorem dirty_workspace_guard_witness:
  "branch_exists dirty_loom ''b''
   \<and> fst (the (merge 1 ex_ext ''b'' dirty_loom)) = Inl (UnsnapshotModifications [''a.txt''])
   \<and> fst (the (checkout 1 ex_ext ''b'' dirty_loom)) = Inl (UnsnapshotModifications [''a.txt''])"
proof -
  have a: "branch_exists dirty_loom ''b''" by code_simp
  have b: "idx_unsnapshot ex_ext (idx_update ex_ext (wdir dirty_loom) (index dirty_loom)) \<noteq> []
         \<or> idx_modified ex_ext (idx_update ex_ext (wdir dirty_loom) (index dirty_loom)) \<noteq> []"
    by code_simp
  have c: "idx_unsnapshot ex_ext (idx_update ex_ext (wdir dirty_loom) (index dirty_loom)) = [''a.txt'']"
    by code_simp
  from dirty_workspace_guard[OF a b, of 1] a c show ?thesis
    by (simp add: Let_def)
qed

text \<open>
  Claim C7 as stated fails on a dirty workspace when the named branch does not exist:
  the check of the branch comes first, and the error is that the branch does not exist,
  not a list of the offending paths.
\<close>

theorem dirty_workspace_guard_counterexample:
  "idx_unsnapshot ex_ext (idx_update ex_ext (wdir dirty_loom) (index dirty_loom)) = [''a.txt'']
   \<and> fst (the (merge 1 ex_ext ''zz'' dirty_loom)) = Inl (BranchNotFound ''zz'')
   \<and> fst (the (checkout 1 ex_ext ''zz'' dirty_loom)) = Inl (BranchNotFound ''zz'')"
  by code_simp

end
